theory Spec2Isabelle
  imports Main
begin

section \<open>Search business logic of edx-search (search/api.py)\<close>

text \<open>
  The module has two entry points, \<open>perform_search\<close> and \<open>course_discovery_search\<close>.
  Both build three constraint dictionaries, resolve a search engine by index name, call
  it, and (for \<open>perform_search\<close> only) post-process the hits. The collaborators
  (\<open>SearchFilterGenerator\<close>, \<open>SearchEngine\<close>, \<open>SearchResultProcessor\<close>, the Django
  settings and the clock) are imported from elsewhere; they are parameters of the model,
  collected in a record, and every call to one of them is written to a call trace that
  the modelled function returns next to its outcome.
\<close>

subsection \<open>Python values\<close>

text \<open>
  A Python \<open>str\<close> is a sequence of Unicode code points, so it is a list of naturals here;
  \<open>str\<close> embeds an ASCII literal. Timestamps (\<open>datetime\<close>) are integers.
\<close>

type_synonym pystr = "nat list"

type_synonym datetime = int

definition str :: "string \<Rightarrow> pystr" where
  "str s = map of_char s"

datatype pyval =
    PNone
  | PBool bool
  | PInt int
  | PStr pystr
  | PDateRange "datetime option" "datetime option"
  | PList "pyval list"

type_synonym pydict = "pystr \<rightharpoonup> pyval"

datatype error = NoSearchEngineError | AttributeError

text \<open>
  \<open>str.split()\<close> without arguments: the string is cut at runs of whitespace and no empty
  token is produced. \<open>isspace\<close> lists the code points Python 3 treats as whitespace.
\<close>

definition isspace :: "nat \<Rightarrow> bool" where
  "isspace c \<longleftrightarrow>
     (9 \<le> c \<and> c \<le> 13) \<or> (28 \<le> c \<and> c \<le> 32) \<or> c = 133 \<or> c = 160 \<or> c = 5760 \<or>
     (8192 \<le> c \<and> c \<le> 8202) \<or> c = 8232 \<or> c = 8233 \<or> c = 8239 \<or> c = 8287 \<or> c = 12288"

fun split_from :: "pystr \<Rightarrow> pystr \<Rightarrow> pystr list" where
  "split_from cur [] = (if cur = [] then [] else [cur])"
| "split_from cur (c # cs) =
     (if isspace c then (if cur = [] then split_from [] cs else cur # split_from [] cs)
      else split_from (cur @ [c]) cs)"

definition split :: "pystr \<Rightarrow> pystr list" where
  "split s = split_from [] s"

text \<open>
  \<open>status_value.split()\<close> on an arbitrary value: only a \<open>str\<close> has the method, every other
  value of the model raises \<open>AttributeError\<close>.
\<close>

fun attr_split :: "pyval \<Rightarrow> error + pystr list" where
  "attr_split (PStr s) = Inr (split s)"
| "attr_split _ = Inl AttributeError"

subsection \<open>Settings\<close>

text \<open>
  \<open>getattr(settings, NAME, default)\<close>: a setting is either absent or has a value.
\<close>

record settings =
  COURSE_DISCOVERY_FILTERS :: "pystr list option"
  COURSE_DISCOVERY_AGGREGATIONS :: "(pystr \<rightharpoonup> pydict) option"
  COURSEWARE_CONTENT_INDEX_NAME :: "pystr option"
  COURSEWARE_INFO_INDEX_NAME :: "pystr option"
  SEARCH_SKIP_ENROLLMENT_START_DATE_FILTERING :: "bool option"

definition getattr :: "'a option \<Rightarrow> 'a \<Rightarrow> 'a" where
  "getattr v dflt = (case v of None \<Rightarrow> dflt | Some x \<Rightarrow> x)"

definition DEFAULT_FILTER_FIELDS :: "pystr list" where
  "DEFAULT_FILTER_FIELDS = [str ''org'', str ''modes'', str ''language'']"

definition course_discovery_filter_fields :: "settings \<Rightarrow> pystr list" where
  "course_discovery_filter_fields s = getattr (COURSE_DISCOVERY_FILTERS s) DEFAULT_FILTER_FIELDS"

definition course_discovery_aggregations :: "settings \<Rightarrow> (pystr \<rightharpoonup> pydict)" where
  "course_discovery_aggregations s =
     getattr (COURSE_DISCOVERY_AGGREGATIONS s)
       (map_of (map (\<lambda>field. (field, Map.empty)) (course_discovery_filter_fields s)))"

subsection \<open>Hits, results and the collaborators\<close>

text \<open>
  A hit is a dictionary with a \<open>data\<close> entry and engine metadata; \<open>data\<close> is \<open>None\<close> or a
  payload. A result set is a dictionary with the hit list under \<open>results\<close>, the engine's
  other entries, and \<open>access_denied_count\<close> once \<open>perform_search\<close> has written it.
  The hits of one result set are taken to be distinct objects.
\<close>

record ('d, 'm) hit =
  data :: "'d option"
  other_keys :: 'm

record ('d, 'm, 'e) search_results =
  results :: "('d, 'm) hit list"
  access_denied_count :: "nat option"
  other_entries :: 'e

text \<open>The keyword arguments of \<open>search_string\<close> and \<open>search\<close>.\<close>

record kwargs =
  query_string :: "pystr option"
  field_dictionary :: pydict
  filter_dictionary :: pydict
  exclude_dictionary :: pydict
  size_arg :: int
  from_arg :: int
  aggregation_terms :: "(pystr \<rightharpoonup> pydict) option"

record ('d, 'm, 'e) searcher =
  search_string :: "kwargs \<Rightarrow> ('d, 'm, 'e) search_results"
  search :: "kwargs \<Rightarrow> ('d, 'm, 'e) search_results"

text \<open>
  \<open>utcnow w n\<close> is what the \<open>n\<close>-th call of \<open>datetime.utcnow()\<close> within one request returns
  (counted from 0).
\<close>

record ('u, 'c, 'd, 'm, 'e) world =
  settings :: settings
  generate_field_filters :: "'u option \<Rightarrow> 'c option \<Rightarrow> pydict \<times> pydict \<times> pydict"
  get_search_engine :: "pystr \<Rightarrow> ('d, 'm, 'e) searcher option"
  process_result :: "'d option \<Rightarrow> pystr \<Rightarrow> 'u option \<Rightarrow> 'd option"
  utcnow :: "nat \<Rightarrow> datetime"

text \<open>The three settings the entry points read, with their defaults.\<close>

abbreviation content_index_name :: "('u, 'c, 'd, 'm, 'e) world \<Rightarrow> pystr" where
  "content_index_name w \<equiv>
     getattr (COURSEWARE_CONTENT_INDEX_NAME (settings w)) (str ''courseware_content'')"

abbreviation info_index_name :: "('u, 'c, 'd, 'm, 'e) world \<Rightarrow> pystr" where
  "info_index_name w \<equiv> getattr (COURSEWARE_INFO_INDEX_NAME (settings w)) (str ''course_info'')"

abbreviation skip_enrollment_start :: "('u, 'c, 'd, 'm, 'e) world \<Rightarrow> bool" where
  "skip_enrollment_start w \<equiv>
     getattr (SEARCH_SKIP_ENROLLMENT_START_DATE_FILTERING (settings w)) False"

datatype ('u, 'c, 'd) call =
    Generate_field_filters "'u option" "'c option"
  | Get_search_engine pystr
  | Search_string kwargs
  | Search kwargs
  | Process_result "'d option" pystr "'u option"
  | Utcnow datetime

subsection \<open>perform_search\<close>

text \<open>
  Lines 76-80: every hit's \<open>data\<close> is replaced by what \<open>process_result\<close> returns for it, then
  the hits whose \<open>data\<close> is \<open>None\<close> are counted and removed.
\<close>

definition process_hits ::
  "('u, 'c, 'd, 'm, 'e) world \<Rightarrow> pystr \<Rightarrow> 'u option \<Rightarrow> ('d, 'm) hit list \<Rightarrow> ('d, 'm) hit list" where
  "process_hits w search_term user hits =
     map (\<lambda>result. result\<lparr>data := process_result w (data result) search_term user\<rparr>) hits"

definition post_process ::
  "('u, 'c, 'd, 'm, 'e) world \<Rightarrow> pystr \<Rightarrow> 'u option \<Rightarrow> ('d, 'm, 'e) search_results
     \<Rightarrow> ('d, 'm, 'e) search_results" where
  "post_process w search_term user res =
     (let processed = process_hits w search_term user (results res)
      in res\<lparr>access_denied_count := Some (length (filter (\<lambda>r. Option.is_none (data r)) processed)),
              results := filter (\<lambda>r. \<not> Option.is_none (data r)) processed\<rparr>)"

definition perform_search ::
  "('u, 'c, 'd, 'm, 'e) world \<Rightarrow> pystr \<Rightarrow> 'u option \<Rightarrow> int \<Rightarrow> int \<Rightarrow> 'c option
     \<Rightarrow> ('u, 'c, 'd) call list \<times> (error + ('d, 'm, 'e) search_results)" where
  "perform_search w search_term user size' from' course_id =
     (case generate_field_filters w user course_id of
        (field_dict, filter_dict, exclude_dict) \<Rightarrow>
          (let index_name =
                 getattr (COURSEWARE_CONTENT_INDEX_NAME (settings w)) (str ''courseware_content'');
               calls = [Generate_field_filters user course_id, Get_search_engine index_name]
           in (case get_search_engine w index_name of
                 None \<Rightarrow> (calls, Inl NoSearchEngineError)
               | Some searcher \<Rightarrow>
                   (let args = \<lparr>query_string = Some search_term,
                                field_dictionary = field_dict,
                                filter_dictionary = filter_dict,
                                exclude_dictionary = exclude_dict,
                                size_arg = size',
                                from_arg = from',
                                aggregation_terms = None\<rparr>;
                        res = search_string searcher args
                    in (calls @ [Search_string args]
                          @ map (\<lambda>result. Process_result (data result) search_term user) (results res),
                        Inr (post_process w search_term user res))))))"

subsection \<open>course_discovery_search\<close>

definition use_search_fields :: "pystr list" where
  "use_search_fields = [str ''org'']"

text \<open>
  Lines 89-95: the provider's fields restricted to the allow-list, then updated with the
  caller's dictionary. An empty dictionary is falsy, and updating with it changes nothing,
  so both branches of \<open>if field_dictionary\<close> are the update.
\<close>

definition merged_field_dictionary :: "pydict \<Rightarrow> pydict option \<Rightarrow> pydict" where
  "merged_field_dictionary search_fields fd =
     (let use_field_dictionary = search_fields |` set use_search_fields
      in case fd of None \<Rightarrow> use_field_dictionary | Some d \<Rightarrow> use_field_dictionary ++ d)"

text \<open>
  Lines 98-112, on the pair of the working field dictionary and the exclude dictionary.
  The \<open>or\<close> of line 111 evaluates \<open>status_value.split()\<close> only when the value is not equal to
  \<open>"invitation_only"\<close>.
\<close>

definition status_derivation :: "datetime \<Rightarrow> pydict \<Rightarrow> pydict \<Rightarrow> error + pydict \<times> pydict" where
  "status_derivation today use_field_dictionary exclude_dict =
     (case use_field_dictionary (str ''estatus'') of
        None \<Rightarrow> Inr (use_field_dictionary, exclude_dict)
      | Some status_value \<Rightarrow>
          (let popped = use_field_dictionary(str ''estatus'' := None);
               exclude_dict' = exclude_dict(str ''invitation_only'' \<mapsto> PBool False);
               dated =
                 (if status_value = PStr (str ''ongoing'') then
                    popped(str ''start'' \<mapsto> PDateRange None (Some today),
                           str ''end'' \<mapsto> PDateRange (Some today) None)
                  else if status_value = PStr (str ''upcoming'') then
                    popped(str ''start'' \<mapsto> PDateRange (Some today) None)
                  else if status_value = PStr (str ''finished'') then
                    popped(str ''end'' \<mapsto> PDateRange None (Some today))
                  else popped)
           in if status_value = PStr (str ''invitation_only'') then
                Inr (dated(str ''invitation_only'' \<mapsto> PBool True), exclude_dict')
              else
                (case attr_split status_value of
                   Inl e \<Rightarrow> Inl e
                 | Inr tokens \<Rightarrow>
                     Inr (if str ''invitation_only'' \<in> set tokens
                          then dated(str ''invitation_only'' \<mapsto> PBool True) else dated,
                          exclude_dict'))))"

text \<open>
  Lines 114-131, once status derivation has returned; \<open>calls\<close> is the trace so far, which
  holds one reading of the clock.
\<close>

definition dispatch_discovery ::
  "('u, 'c, 'd, 'm, 'e) world \<Rightarrow> pystr option \<Rightarrow> int \<Rightarrow> int \<Rightarrow> ('u, 'c, 'd) call list
     \<Rightarrow> pydict \<Rightarrow> pydict \<Rightarrow> ('u, 'c, 'd) call list \<times> (error + ('d, 'm, 'e) search_results)" where
  "dispatch_discovery w search_term size' from' calls use_field_dictionary exclude_dict =
     (let skip = getattr (SEARCH_SKIP_ENROLLMENT_START_DATE_FILTERING (settings w)) False;
          use_field_dictionary' =
            (if \<not> skip
             then use_field_dictionary(str ''enrollment_start'' \<mapsto> PDateRange None (Some (utcnow w 1)))
             else use_field_dictionary);
          calls' = calls @ (if \<not> skip then [Utcnow (utcnow w 1)] else []);
          reads = (if \<not> skip then 2 else 1);
          index_name = getattr (COURSEWARE_INFO_INDEX_NAME (settings w)) (str ''course_info'')
      in (case get_search_engine w index_name of
            None \<Rightarrow> (calls' @ [Get_search_engine index_name], Inl NoSearchEngineError)
          | Some searcher \<Rightarrow>
              (let args = \<lparr>query_string = search_term,
                           field_dictionary = use_field_dictionary',
                           filter_dictionary =
                             Map.empty(str ''enrollment_end'' \<mapsto> PDateRange (Some (utcnow w reads)) None),
                           exclude_dictionary = exclude_dict,
                           size_arg = size',
                           from_arg = from',
                           aggregation_terms = Some (course_discovery_aggregations (settings w))\<rparr>
               in (calls' @ [Get_search_engine index_name, Utcnow (utcnow w reads), Search args],
                   Inr (search searcher args)))))"

definition course_discovery_search ::
  "('u, 'c, 'd, 'm, 'e) world \<Rightarrow> pystr option \<Rightarrow> int \<Rightarrow> int \<Rightarrow> pydict option
     \<Rightarrow> ('u, 'c, 'd) call list \<times> (error + ('d, 'm, 'e) search_results)" where
  "course_discovery_search w search_term size' from' fd =
     (case generate_field_filters w None None of
        (search_fields, filters, exclude_dict) \<Rightarrow>
          (let use_field_dictionary = merged_field_dictionary search_fields fd;
               today = utcnow w 0;
               calls = [Generate_field_filters None None, Utcnow today]
           in (case status_derivation today use_field_dictionary exclude_dict of
                 Inl e \<Rightarrow> (calls, Inl e)
               | Inr (use_field_dictionary', exclude_dict') \<Rightarrow>
                   dispatch_discovery w search_term size' from' calls
                     use_field_dictionary' exclude_dict')))"

text \<open>The engine queries of a call trace, in order.\<close>

fun queries :: "('u, 'c, 'd) call list \<Rightarrow> kwargs list" where
  "queries [] = []"
| "queries (Search_string a # cs) = a # queries cs"
| "queries (Search a # cs) = a # queries cs"
| "queries (_ # cs) = queries cs"

text \<open>The readings of the clock in a call trace, in order.\<close>

fun clock_readings :: "('u, 'c, 'd) call list \<Rightarrow> datetime list" where
  "clock_readings [] = []"
| "clock_readings (Utcnow t # cs) = t # clock_readings cs"
| "clock_readings (_ # cs) = clock_readings cs"

subsection \<open>A concrete deployment\<close>

text \<open>
  A small world to run the functions in: the provider returns an \<open>org\<close> and a \<open>course\<close>
  field, the engine returns five hits whose payloads are numbers, the result processor
  hides odd payloads, and the clock advances by one second per reading.
\<close>

definition demo_hits :: "(nat, nat) hit list" where
  "demo_hits =
     [\<lparr>data = Some 2, other_keys = 10\<rparr>, \<lparr>data = Some 3, other_keys = 11\<rparr>,
      \<lparr>data = Some 4, other_keys = 12\<rparr>, \<lparr>data = None, other_keys = 13\<rparr>,
      \<lparr>data = Some 6, other_keys = 14\<rparr>]"

definition demo_searcher :: "(nat, nat, unit) searcher" where
  "demo_searcher =
     \<lparr>search_string =
        (\<lambda>args. \<lparr>results = demo_hits, access_denied_count = None, other_entries = ()\<rparr>),
      search =
        (\<lambda>args. \<lparr>results = [], access_denied_count = None, other_entries = ()\<rparr>)\<rparr>"

definition demo_settings :: "bool option \<Rightarrow> settings" where
  "demo_settings skip =
     \<lparr>COURSE_DISCOVERY_FILTERS = None,
      COURSE_DISCOVERY_AGGREGATIONS = None,
      COURSEWARE_CONTENT_INDEX_NAME = None,
      COURSEWARE_INFO_INDEX_NAME = None,
      SEARCH_SKIP_ENROLLMENT_START_DATE_FILTERING = skip\<rparr>"

definition demo_world :: "bool option \<Rightarrow> bool \<Rightarrow> (nat, nat, nat, nat, unit) world" where
  "demo_world skip configured =
     \<lparr>settings = demo_settings skip,
      generate_field_filters =
        (\<lambda>user course_id.
           (Map.empty(str ''org'' \<mapsto> PStr (str ''edX''), str ''course'' \<mapsto> PStr (str ''c1'')),
            Map.empty, Map.empty)),
      get_search_engine = (\<lambda>name. if configured then Some demo_searcher else None),
      process_result =
        (\<lambda>payload search_term user.
           case payload of None \<Rightarrow> None | Some n \<Rightarrow> if even n then Some n else None),
      utcnow = (\<lambda>n. 1000 + int n)\<rparr>"

text \<open>The query that \<open>perform_search\<close> sends for the term \<open>algebra\<close> in this world.\<close>

definition demo_content_query :: kwargs where
  "demo_content_query =
     \<lparr>query_string = Some (str ''algebra''),
      field_dictionary = Map.empty(str ''org'' \<mapsto> PStr (str ''edX''), str ''course'' \<mapsto> PStr (str ''c1'')),
      filter_dictionary = Map.empty,
      exclude_dictionary = Map.empty,
      size_arg = 10,
      from_arg = 0,
      aggregation_terms = None\<rparr>"

text \<open>Caller overrides that replace \<open>org\<close>, ask for ongoing courses and try to fix \<open>start\<close>.\<close>

definition demo_overrides :: pydict where
  "demo_overrides =
     [str ''org'' \<mapsto> PStr (str ''MITx''), str ''estatus'' \<mapsto> PStr (str ''ongoing''),
      str ''start'' \<mapsto> PInt 5]"

text \<open>The working field dictionary after status derivation for \<open>estatus = ongoing\<close> at time 1000.\<close>

definition demo_ongoing_fields :: pydict where
  "demo_ongoing_fields =
     [str ''org'' \<mapsto> PStr (str ''edX''),
      str ''start'' \<mapsto> PDateRange None (Some 1000),
      str ''end'' \<mapsto> PDateRange (Some 1000) None]"

section \<open>Properties\<close>

subsection \<open>Auxiliary facts\<close>

lemma str_eq_iff [simp]: "str a = str b \<longleftrightarrow> a = b"
  unfolding str_def by (simp add: inj_map_eq_map inj_on_def)

lemma demo_simps:
  "settings (demo_world skip conf) = demo_settings skip"
  "get_search_engine (demo_world skip conf) n = (if conf then Some demo_searcher else None)"
  "utcnow (demo_world skip conf) k = 1000 + int k"
  "COURSEWARE_CONTENT_INDEX_NAME (demo_settings skip) = None"
  "COURSEWARE_INFO_INDEX_NAME (demo_settings skip) = None"
  "SEARCH_SKIP_ENROLLMENT_START_DATE_FILTERING (demo_settings skip) = skip"
  by (simp_all add: demo_world_def demo_settings_def)

lemma filter_process_hits:
  "filter (\<lambda>r. \<not> Option.is_none (data r)) (process_hits w t u hits) =
   process_hits w t u (filter (\<lambda>r. \<not> Option.is_none (process_result w (data r) t u)) hits)"
  by (induction hits) (simp_all add: process_hits_def)

lemma denied_process_hits:
  "length (filter (\<lambda>r. Option.is_none (data r)) (process_hits w t u hits)) =
   length (filter (\<lambda>r. Option.is_none (process_result w (data r) t u)) hits)"
  by (induction hits) (simp_all add: process_hits_def)

lemma results_post_process:
  "results (post_process w t u res) =
   process_hits w t u (filter (\<lambda>r. \<not> Option.is_none (process_result w (data r) t u)) (results res))"
  by (simp add: post_process_def Let_def filter_process_hits)

lemma count_post_process:
  "access_denied_count (post_process w t u res) =
   Some (length (filter (\<lambda>r. Option.is_none (process_result w (data r) t u)) (results res)))"
  by (simp add: post_process_def Let_def denied_process_hits)

lemma queries_process_calls:
  "queries (map (\<lambda>result. Process_result (data result) t u) hs) = []"
  by (induction hs) simp_all

lemma demo_search_string:
  "search_string demo_searcher args = \<lparr>results = demo_hits, access_denied_count = None, other_entries = ()\<rparr>"
  by (simp add: demo_searcher_def)

lemma demo_process_result:
  "process_result (demo_world skip conf) payload t u =
     (case payload of None \<Rightarrow> None | Some n \<Rightarrow> if even n then Some n else None)"
  by (simp add: demo_world_def)

lemma demo_generate:
  "generate_field_filters (demo_world skip conf) user course_id =
     (Map.empty(str ''org'' \<mapsto> PStr (str ''edX''), str ''course'' \<mapsto> PStr (str ''c1'')),
      Map.empty, Map.empty)"
  by (simp add: demo_world_def)

lemma demo_content_trace:
  "queries (fst (perform_search (demo_world None True) (str ''algebra'') None 10 0 None))
     = [demo_content_query]"
  by (simp add: perform_search_def Let_def demo_generate demo_simps getattr_def
      demo_content_query_def queries_process_calls)

lemma filter_split_at:
  assumes "i < length xs"
  shows "filter P xs = filter P (take i xs) @ (if P (xs ! i) then [xs ! i] else []) @ filter P (drop (Suc i) xs)"
proof -
  have "xs = take i xs @ xs ! i # drop (Suc i) xs"
    using assms by (rule id_take_nth_drop)
  then have "filter P xs = filter P (take i xs @ xs ! i # drop (Suc i) xs)"
    by simp
  then show ?thesis by simp
qed

text \<open>With an engine configured, \<open>perform_search\<close> issues one query and post-processes its answer.\<close>

lemma perform_search_configured:
  assumes "get_search_engine w (content_index_name w) = Some searcher"
  shows "\<exists>args. queries (fst (perform_search w t u s f c)) = [args] \<and>
           snd (perform_search w t u s f c) = Inr (post_process w t u (search_string searcher args))"
proof -
  obtain fs fl ex where g: "generate_field_filters w u c = (fs, fl, ex)"
    by (cases "generate_field_filters w u c")
  show ?thesis
    using assms g by (simp add: perform_search_def Let_def queries_process_calls)
qed

subsection \<open>perform_search without a search engine\<close>

text \<open>
  C4. When the content index name resolves to no engine, \<open>perform_search\<close> raises
  \<open>NoSearchEngineError\<close>, and its call trace is exactly the call of
  \<open>generate_field_filters\<close> followed by the failed engine lookup: neither \<open>search_string\<close>
  nor \<open>process_result\<close> has been called.
\<close>

theorem perform_search_no_engine:
  assumes "get_search_engine w (content_index_name w) = None"
  shows "perform_search w t u s f c =
           ([Generate_field_filters u c,
             Get_search_engine (content_index_name w)],
            Inl NoSearchEngineError)"
proof -
  obtain fs fl ex where g: "generate_field_filters w u c = (fs, fl, ex)"
    by (cases "generate_field_filters w u c")
  show ?thesis
    using assms g by (simp add: perform_search_def Let_def)
qed

theorem perform_search_no_engine_witness:
  "get_search_engine (demo_world None False) (content_index_name (demo_world None False)) = None
   \<and> perform_search (demo_world None False) (str ''algebra'') (Some 7) 10 0 (Some 3) =
       ([Generate_field_filters (Some 7) (Some 3), Get_search_engine (str ''courseware_content'')],
        Inl NoSearchEngineError)"
  using perform_search_no_engine [of "demo_world None False" "str ''algebra''" "Some 7" 10 0 "Some 3"]
  by (simp add: demo_simps getattr_def)

subsection \<open>Post-processing of hits\<close>

text \<open>
  C2. With an engine configured, \<open>perform_search\<close> returns a result set in which the number
  of visible hits plus \<open>access_denied_count\<close> is the number of hits the engine returned, and
  the visible hits are the engine's hits that the result processor did not answer with
  \<open>None\<close>, in the engine's order, each with its \<open>data\<close> replaced by the processor's answer.
\<close>

theorem perform_search_count_and_order:
  assumes "get_search_engine w (content_index_name w) = Some searcher"
  shows "\<exists>args out n.
           queries (fst (perform_search w t u s f c)) = [args] \<and>
           snd (perform_search w t u s f c) = Inr out \<and>
           access_denied_count out = Some n \<and>
           length (results out) + n = length (results (search_string searcher args)) \<and>
           results out =
             map (\<lambda>r. r\<lparr>data := process_result w (data r) t u\<rparr>)
               (filter (\<lambda>r. \<not> Option.is_none (process_result w (data r) t u))
                  (results (search_string searcher args)))"
proof -
  from perform_search_configured [OF assms, of t u s f c]
  obtain args where q: "queries (fst (perform_search w t u s f c)) = [args]"
    and r: "snd (perform_search w t u s f c) = Inr (post_process w t u (search_string searcher args))"
    by blast
  let ?hits = "results (search_string searcher args)"
  let ?out = "post_process w t u (search_string searcher args)"
  let ?denied = "\<lambda>r. Option.is_none (process_result w (data r) t u)"
  have vis: "results ?out = process_hits w t u (filter (\<lambda>r. \<not> ?denied r) ?hits)"
    by (rule results_post_process)
  have cnt: "access_denied_count ?out = Some (length (filter ?denied ?hits))"
    by (rule count_post_process)
  have len: "length (results ?out) + length (filter ?denied ?hits) = length ?hits"
    unfolding vis process_hits_def length_map
    using sum_length_filter_compl [of ?denied ?hits] by simp
  show ?thesis
    using q r cnt len vis unfolding process_hits_def by blast
qed

theorem perform_search_count_and_order_witness:
  "get_search_engine (demo_world None True) (content_index_name (demo_world None True)) = Some demo_searcher
   \<and> (\<exists>args out n.
         queries (fst (perform_search (demo_world None True) (str ''algebra'') None 10 0 None)) = [args] \<and>
         snd (perform_search (demo_world None True) (str ''algebra'') None 10 0 None) = Inr out \<and>
         access_denied_count out = Some n \<and>
         length (results out) + n = length demo_hits \<and>
         results out =
           map (\<lambda>r. r\<lparr>data := process_result (demo_world None True) (data r) (str ''algebra'') None\<rparr>)
             (filter (\<lambda>r. \<not> Option.is_none
                        (process_result (demo_world None True) (data r) (str ''algebra'') None))
                demo_hits))"
  using perform_search_count_and_order
          [of "demo_world None True" demo_searcher "str ''algebra''" None 10 0 None]
  by (simp add: demo_simps getattr_def demo_search_string)

text \<open>
  C8 (as amended). A hit for which the result processor returns the payload it was given,
  and not \<open>None\<close>, is returned as it was, with the same payload. Its index among the
  visible hits is the number of kept hits before it in the engine's list, so it keeps its
  place relative to the other kept hits and keeps its index only when no earlier hit is
  removed. It adds nothing to \<open>access_denied_count\<close>, which is the number of denied hits
  among the others.
\<close>

theorem unchanged_hit_survives:
  assumes engine: "get_search_engine w (content_index_name w) = Some searcher"
    and query: "queries (fst (perform_search w t u s f c)) = [args]"
    and index: "i < length (results (search_string searcher args))"
    and same: "process_result w (data (results (search_string searcher args) ! i)) t u
                 = data (results (search_string searcher args) ! i)"
    and visible: "data (results (search_string searcher args) ! i) \<noteq> None"
  shows "\<exists>out.
           snd (perform_search w t u s f c) = Inr out \<and>
           length (filter (\<lambda>r. \<not> Option.is_none (process_result w (data r) t u))
                     (take i (results (search_string searcher args)))) < length (results out) \<and>
           results out !
             length (filter (\<lambda>r. \<not> Option.is_none (process_result w (data r) t u))
                       (take i (results (search_string searcher args))))
             = results (search_string searcher args) ! i \<and>
           access_denied_count out =
             Some (length (filter (\<lambda>r. Option.is_none (process_result w (data r) t u))
                             (take i (results (search_string searcher args))))
                   + length (filter (\<lambda>r. Option.is_none (process_result w (data r) t u))
                               (drop (Suc i) (results (search_string searcher args)))))"
proof -
  from perform_search_configured [OF engine, of t u s f c] query
  have r: "snd (perform_search w t u s f c) = Inr (post_process w t u (search_string searcher args))"
    by auto
  let ?hits = "results (search_string searcher args)"
  let ?out = "post_process w t u (search_string searcher args)"
  let ?denied = "\<lambda>r. Option.is_none (process_result w (data r) t u)"
  let ?kept = "\<lambda>r. \<not> ?denied r"
  let ?k = "length (filter ?kept (take i ?hits))"
  have kept_i: "?kept (?hits ! i)"
    using same visible by (simp add: Option.is_none_def)
  have vis: "results ?out =
      process_hits w t u (filter ?kept (take i ?hits)) @
      process_hits w t u [?hits ! i] @
      process_hits w t u (filter ?kept (drop (Suc i) ?hits))"
    unfolding results_post_process
    by (subst filter_split_at [OF index, of ?kept]) (simp add: kept_i process_hits_def)
  have k: "length (process_hits w t u (filter ?kept (take i ?hits))) = ?k"
    by (simp add: process_hits_def)
  have self: "process_hits w t u [?hits ! i] = [?hits ! i]"
    by (simp add: process_hits_def same)
  have pos: "?k < length (results ?out)"
    unfolding vis by (simp add: process_hits_def)
  have nth: "results ?out ! ?k = ?hits ! i"
    unfolding vis self using k by (metis nth_append_length append_Cons)
  have cnt: "access_denied_count ?out =
      Some (length (filter ?denied (take i ?hits)) + length (filter ?denied (drop (Suc i) ?hits)))"
    unfolding count_post_process
    by (subst filter_split_at [OF index, of ?denied]) (use kept_i in simp)
  show ?thesis
    using r pos nth cnt by blast
qed

theorem unchanged_hit_survives_witness:
  "get_search_engine (demo_world None True) (content_index_name (demo_world None True)) = Some demo_searcher
   \<and> queries (fst (perform_search (demo_world None True) (str ''algebra'') None 10 0 None))
       = [demo_content_query]
   \<and> 2 < length (results (search_string demo_searcher demo_content_query))
   \<and> process_result (demo_world None True)
        (data (results (search_string demo_searcher demo_content_query) ! 2)) (str ''algebra'') None
       = data (results (search_string demo_searcher demo_content_query) ! 2)
   \<and> data (results (search_string demo_searcher demo_content_query) ! 2) \<noteq> None
   \<and> (\<exists>out. snd (perform_search (demo_world None True) (str ''algebra'') None 10 0 None) = Inr out
         \<and> 1 < length (results out)
         \<and> results out ! 1 = \<lparr>data = Some 4, other_keys = 12\<rparr>
         \<and> access_denied_count out = Some 2)"
proof -
  have e: "get_search_engine (demo_world None True) (content_index_name (demo_world None True)) = Some demo_searcher"
    by (simp add: demo_simps)
  have i: "2 < length (results (search_string demo_searcher demo_content_query))"
    by (simp add: demo_search_string demo_hits_def)
  have h: "results (search_string demo_searcher demo_content_query) ! 2 = \<lparr>data = Some 4, other_keys = 12\<rparr>"
    by (simp add: demo_search_string demo_hits_def)
  have p: "process_result (demo_world None True)
        (data (results (search_string demo_searcher demo_content_query) ! 2)) (str ''algebra'') None
       = data (results (search_string demo_searcher demo_content_query) ! 2)"
    by (simp add: h demo_process_result)
  have v: "data (results (search_string demo_searcher demo_content_query) ! 2) \<noteq> None"
    by (simp add: h)
  show ?thesis
    using unchanged_hit_survives [OF e demo_content_trace i p v] e demo_content_trace i p v
    by (simp add: demo_search_string demo_hits_def demo_process_result h numeral_2_eq_2 [symmetric])
qed

text \<open>
  C8 as stated fails: line 80 removes the denied hits from the list, so a kept hit that
  follows a denied one moves forward. In the concrete deployment the hit at index 2 of
  the engine's list is returned unchanged by the result processor; the hit at index 1 is
  denied, and the visible hits have the unchanged hit at index 1 and another hit at
  index 2.
\<close>

theorem unchanged_hit_changes_index:
  "process_result (demo_world None True) (data (demo_hits ! 2)) (str ''algebra'') None
     = data (demo_hits ! 2)
   \<and> data (demo_hits ! 2) \<noteq> None
   \<and> snd (perform_search (demo_world None True) (str ''algebra'') None 10 0 None) =
       Inr \<lparr>results = [\<lparr>data = Some 2, other_keys = 10\<rparr>, \<lparr>data = Some 4, other_keys = 12\<rparr>,
                       \<lparr>data = Some 6, other_keys = 14\<rparr>],
            access_denied_count = Some 2, other_entries = ()\<rparr>
   \<and> [\<lparr>data = Some 2, other_keys = 10\<rparr>, \<lparr>data = Some 4, other_keys = 12\<rparr>,
       \<lparr>data = Some 6, other_keys = (14::nat)\<rparr>] ! 2 \<noteq> demo_hits ! 2
   \<and> [\<lparr>data = Some 2, other_keys = 10\<rparr>, \<lparr>data = Some 4, other_keys = 12\<rparr>,
       \<lparr>data = Some 6, other_keys = (14::nat)\<rparr>] ! 1 = demo_hits ! 2"
  by (simp add: perform_search_def Let_def demo_simps getattr_def demo_search_string
      demo_process_result demo_generate post_process_def process_hits_def demo_hits_def)

text \<open>
  C9. A hit for which the result processor returns \<open>None\<close> is removed and counted: the
  visible hits are those of the result set without this hit, and \<open>access_denied_count\<close> is
  one more than for the result set without it. The test is \<open>data is None\<close> and nothing
  else, so a payload of \<open>None\<close> and a denial are the same outcome.
\<close>

theorem none_payload_counts_as_denied:
  assumes engine: "get_search_engine w (content_index_name w) = Some searcher"
    and query: "queries (fst (perform_search w t u s f c)) = [args]"
    and index: "i < length (results (search_string searcher args))"
    and none: "process_result w (data (results (search_string searcher args) ! i)) t u = None"
  shows "\<exists>out n.
           snd (perform_search w t u s f c) = Inr out \<and>
           results out =
             results (post_process w t u
               ((search_string searcher args)
                  \<lparr>results := take i (results (search_string searcher args))
                              @ drop (Suc i) (results (search_string searcher args))\<rparr>)) \<and>
           access_denied_count (post_process w t u
               ((search_string searcher args)
                  \<lparr>results := take i (results (search_string searcher args))
                              @ drop (Suc i) (results (search_string searcher args))\<rparr>)) = Some n \<and>
           access_denied_count out = Some (Suc n)"
proof -
  from perform_search_configured [OF engine, of t u s f c] query
  have r: "snd (perform_search w t u s f c) = Inr (post_process w t u (search_string searcher args))"
    by auto
  let ?raw = "search_string searcher args"
  let ?hits = "results ?raw"
  let ?rest = "take i ?hits @ drop (Suc i) ?hits"
  let ?denied = "\<lambda>r. Option.is_none (process_result w (data r) t u)"
  let ?kept = "\<lambda>r. \<not> ?denied r"
  have den_i: "?denied (?hits ! i)"
    using none by simp
  have vis: "results (post_process w t u ?raw) = results (post_process w t u (?raw\<lparr>results := ?rest\<rparr>))"
    unfolding results_post_process
    by (subst filter_split_at [OF index, of ?kept]) (simp add: den_i)
  have cnt: "access_denied_count (post_process w t u ?raw) = Some (Suc (length (filter ?denied ?rest)))"
    unfolding count_post_process
    by (subst filter_split_at [OF index, of ?denied]) (simp add: den_i)
  have cnt': "access_denied_count (post_process w t u (?raw\<lparr>results := ?rest\<rparr>)) = Some (length (filter ?denied ?rest))"
    unfolding count_post_process by simp
  show ?thesis
    using r vis cnt cnt' by blast
qed

theorem none_payload_counts_as_denied_witness:
  "get_search_engine (demo_world None True) (content_index_name (demo_world None True)) = Some demo_searcher
   \<and> queries (fst (perform_search (demo_world None True) (str ''algebra'') None 10 0 None))
       = [demo_content_query]
   \<and> 1 < length (results (search_string demo_searcher demo_content_query))
   \<and> process_result (demo_world None True)
        (data (results (search_string demo_searcher demo_content_query) ! 1)) (str ''algebra'') None
       = None
   \<and> (\<exists>out. snd (perform_search (demo_world None True) (str ''algebra'') None 10 0 None) = Inr out
         \<and> results out =
             [\<lparr>data = Some 2, other_keys = 10\<rparr>, \<lparr>data = Some 4, other_keys = 12\<rparr>,
              \<lparr>data = Some 6, other_keys = 14\<rparr>]
         \<and> access_denied_count out = Some 2)"
proof -
  have e: "get_search_engine (demo_world None True) (content_index_name (demo_world None True)) = Some demo_searcher"
    by (simp add: demo_simps)
  have i: "1 < length (results (search_string demo_searcher demo_content_query))"
    by (simp add: demo_search_string demo_hits_def)
  have h: "results (search_string demo_searcher demo_content_query) ! 1 = \<lparr>data = Some 3, other_keys = 11\<rparr>"
    by (simp add: demo_search_string demo_hits_def)
  have p: "process_result (demo_world None True)
        (data (results (search_string demo_searcher demo_content_query) ! 1)) (str ''algebra'') None
       = None"
    by (subst h) (simp add: demo_process_result)
  show ?thesis
    using none_payload_counts_as_denied [OF e demo_content_trace i p] e demo_content_trace i p
    by (simp add: demo_search_string demo_hits_def demo_process_result post_process_def
        process_hits_def numeral_2_eq_2 [symmetric])
qed

subsection \<open>Auxiliary facts about course_discovery_search\<close>

lemma split_invitation_only: "split (str ''invitation_only'') = [str ''invitation_only'']"
  by (simp add: split_def str_def isspace_def)

lemma split_ongoing: "split (str ''ongoing'') = [str ''ongoing'']"
  by (simp add: split_def str_def isspace_def)

lemma split_ongoing_invitation_only:
  "split (str ''ongoing invitation_only'') = [str ''ongoing'', str ''invitation_only'']"
  by (simp add: split_def str_def isspace_def)

lemma merged_override:
  "merged_field_dictionary sf (Some d) k = (case d k of Some v \<Rightarrow> Some v | None \<Rightarrow> (sf |` set use_search_fields) k)"
  by (simp add: merged_field_dictionary_def map_add_def split: option.splits)

lemma merged_not_seeded:
  "k \<noteq> str ''org'' \<Longrightarrow>
     merged_field_dictionary sf fd k = (case fd of None \<Rightarrow> None | Some d \<Rightarrow> d k)"
  by (simp add: merged_field_dictionary_def use_search_fields_def map_add_def restrict_map_def
      split: option.splits)

lemma status_derivation_other_keys:
  assumes "status_derivation today m ex = Inr (fs, ex')"
    and "k \<noteq> str ''estatus''" "k \<noteq> str ''start''" "k \<noteq> str ''end''" "k \<noteq> str ''invitation_only''"
  shows "fs k = m k"
  using assms
  by (auto simp: status_derivation_def Let_def split: option.splits if_splits sum.splits)

lemma status_derivation_ongoing:
  assumes "m (str ''estatus'') = Some (PStr (str ''ongoing''))"
  shows "status_derivation today m ex =
           Inr (m(str ''estatus'' := None,
                  str ''start'' \<mapsto> PDateRange None (Some today),
                  str ''end'' \<mapsto> PDateRange (Some today) None),
                ex(str ''invitation_only'' \<mapsto> PBool False))"
  using assms by (simp add: status_derivation_def Let_def split_ongoing)

lemma status_derivation_unrecognised:
  assumes "m (str ''estatus'') = Some (PStr sv)"
    and "sv \<noteq> str ''ongoing''" "sv \<noteq> str ''upcoming''" "sv \<noteq> str ''finished''"
    and "str ''invitation_only'' \<notin> set (split sv)"
  shows "status_derivation today m ex =
           Inr (m(str ''estatus'' := None), ex(str ''invitation_only'' \<mapsto> PBool False))"
proof -
  have "sv \<noteq> str ''invitation_only''"
    using assms(5) split_invitation_only by auto
  then show ?thesis
    using assms by (simp add: status_derivation_def Let_def)
qed

lemma queries_append: "queries (xs @ ys) = queries xs @ queries ys"
  by (induction xs rule: queries.induct) simp_all

lemma dispatch_configured:
  assumes "get_search_engine w (info_index_name w) = Some searcher"
  shows "\<exists>args. dispatch_discovery w q s f calls fs ex =
            (calls @ (if skip_enrollment_start w then [] else [Utcnow (utcnow w 1)])
               @ [Get_search_engine (info_index_name w),
                  Utcnow (utcnow w (if skip_enrollment_start w then 1 else 2)),
                  Search args],
             Inr (search searcher args))
          \<and> field_dictionary args =
              (if skip_enrollment_start w then fs
               else fs(str ''enrollment_start'' \<mapsto> PDateRange None (Some (utcnow w 1))))
          \<and> filter_dictionary args =
              Map.empty(str ''enrollment_end'' \<mapsto>
                PDateRange (Some (utcnow w (if skip_enrollment_start w then 1 else 2))) None)
          \<and> exclude_dictionary args = ex"
  using assms by (simp add: dispatch_discovery_def Let_def)

lemma dispatch_unconfigured:
  assumes "get_search_engine w (info_index_name w) = None"
  shows "queries (fst (dispatch_discovery w q s f calls fs ex)) = queries calls"
  using assms by (simp add: dispatch_discovery_def Let_def queries_append)

lemma discovery_configured:
  assumes sd: "status_derivation (utcnow w 0)
                 (merged_field_dictionary (fst (generate_field_filters w None None)) fd)
                 (snd (snd (generate_field_filters w None None))) = Inr (fs, ex)"
    and engine: "get_search_engine w (info_index_name w) = Some searcher"
  shows "\<exists>args. course_discovery_search w q s f fd =
            ([Generate_field_filters None None, Utcnow (utcnow w 0)]
               @ (if skip_enrollment_start w then [] else [Utcnow (utcnow w 1)])
               @ [Get_search_engine (info_index_name w),
                  Utcnow (utcnow w (if skip_enrollment_start w then 1 else 2)),
                  Search args],
             Inr (search searcher args))
          \<and> field_dictionary args =
              (if skip_enrollment_start w then fs
               else fs(str ''enrollment_start'' \<mapsto> PDateRange None (Some (utcnow w 1))))
          \<and> filter_dictionary args =
              Map.empty(str ''enrollment_end'' \<mapsto>
                PDateRange (Some (utcnow w (if skip_enrollment_start w then 1 else 2))) None)
          \<and> exclude_dictionary args = ex"
proof -
  obtain sf fl ex0 where g: "generate_field_filters w None None = (sf, fl, ex0)"
    by (cases "generate_field_filters w None None")
  have cds: "course_discovery_search w q s f fd =
      dispatch_discovery w q s f [Generate_field_filters None None, Utcnow (utcnow w 0)] fs ex"
    using sd g by (simp add: course_discovery_search_def Let_def)
  from dispatch_configured [OF engine, of q s f "[Generate_field_filters None None, Utcnow (utcnow w 0)]" fs ex]
  show ?thesis unfolding cds by simp
qed

lemma discovery_queries:
  assumes "args \<in> set (queries (fst (course_discovery_search w q s f fd)))"
  shows "\<exists>fs ex searcher.
           status_derivation (utcnow w 0)
             (merged_field_dictionary (fst (generate_field_filters w None None)) fd)
             (snd (snd (generate_field_filters w None None))) = Inr (fs, ex)
         \<and> get_search_engine w (info_index_name w) = Some searcher"
proof -
  obtain sf fl ex0 where g: "generate_field_filters w None None = (sf, fl, ex0)"
    by (cases "generate_field_filters w None None")
  show ?thesis
  proof (cases "status_derivation (utcnow w 0) (merged_field_dictionary sf fd) ex0")
    case (Inl e)
    then have "queries (fst (course_discovery_search w q s f fd)) = []"
      using g by (simp add: course_discovery_search_def Let_def)
    with assms show ?thesis by simp
  next
    case (Inr p)
    obtain fs ex where p: "p = (fs, ex)" by (cases p)
    have cds: "course_discovery_search w q s f fd =
        dispatch_discovery w q s f [Generate_field_filters None None, Utcnow (utcnow w 0)] fs ex"
      using Inr p g by (simp add: course_discovery_search_def Let_def)
    show ?thesis
    proof (cases "get_search_engine w (info_index_name w)")
      case None
      from dispatch_unconfigured [OF None, of q s f "[Generate_field_filters None None, Utcnow (utcnow w 0)]" fs ex]
      have "queries (fst (course_discovery_search w q s f fd)) = []"
        unfolding cds by simp
      with assms show ?thesis by simp
    next
      case (Some searcher)
      then show ?thesis using Inr p g by simp
    qed
  qed
qed

lemma discovery_single_query:
  assumes sd: "status_derivation (utcnow w 0)
                 (merged_field_dictionary (fst (generate_field_filters w None None)) fd)
                 (snd (snd (generate_field_filters w None None))) = Inr (fs, ex)"
    and engine: "get_search_engine w (info_index_name w) = Some searcher"
  shows "\<exists>args. queries (fst (course_discovery_search w q s f fd)) = [args]
          \<and> snd (course_discovery_search w q s f fd) = Inr (search searcher args)
          \<and> field_dictionary args =
              (if skip_enrollment_start w then fs
               else fs(str ''enrollment_start'' \<mapsto> PDateRange None (Some (utcnow w 1))))
          \<and> filter_dictionary args =
              Map.empty(str ''enrollment_end'' \<mapsto>
                PDateRange (Some (utcnow w (if skip_enrollment_start w then 1 else 2))) None)
          \<and> exclude_dictionary args = ex"
proof -
  from discovery_configured [OF sd engine, of q s f]
  obtain args where a: "course_discovery_search w q s f fd =
            ([Generate_field_filters None None, Utcnow (utcnow w 0)]
               @ (if skip_enrollment_start w then [] else [Utcnow (utcnow w 1)])
               @ [Get_search_engine (info_index_name w),
                  Utcnow (utcnow w (if skip_enrollment_start w then 1 else 2)),
                  Search args],
             Inr (search searcher args))"
    and b: "field_dictionary args =
              (if skip_enrollment_start w then fs
               else fs(str ''enrollment_start'' \<mapsto> PDateRange None (Some (utcnow w 1))))"
       "filter_dictionary args =
              Map.empty(str ''enrollment_end'' \<mapsto>
                PDateRange (Some (utcnow w (if skip_enrollment_start w then 1 else 2))) None)"
       "exclude_dictionary args = ex"
    by blast
  have "queries (fst (course_discovery_search w q s f fd)) = [args]"
    unfolding a by (simp add: queries_append)
  moreover have "snd (course_discovery_search w q s f fd) = Inr (search searcher args)"
    unfolding a by simp
  ultimately show ?thesis using b by blast
qed

lemma demo_merged:
  "merged_field_dictionary (fst (generate_field_filters (demo_world skip conf) None None)) (Some d) k =
     (case d k of Some v \<Rightarrow> Some v | None \<Rightarrow> if k = str ''org'' then Some (PStr (str ''edX'')) else None)"
  by (simp add: demo_generate merged_override use_search_fields_def restrict_map_def split: option.splits)

lemma status_derivation_overridden_key:
  assumes k: "k = str ''start'' \<or> k = str ''end'' \<or> k = str ''invitation_only''"
    and sd: "status_derivation today (m(k := None)) ex = Inr (fs0, ex0)"
    and v: "fs0 k = Some v"
  shows "\<exists>fs1 ex1. status_derivation today m ex = Inr (fs1, ex1) \<and> fs1 k = Some v"
proof (cases "m (str ''estatus'')")
  case None
  then have "status_derivation today (m(k := None)) ex = Inr (m(k := None), ex)"
    using k by (simp add: status_derivation_def)
  with sd v show ?thesis by auto
next
  case (Some sv)
  have ne: "k \<noteq> str ''estatus''"
    using k by auto
  show ?thesis
  proof (cases "attr_split sv")
    case (Inl e)
    show ?thesis
      using k sd v Some Inl ne
      by (simp add: status_derivation_def Let_def split: if_splits)
  next
    case (Inr tokens)
    show ?thesis
      using k sd v Some Inr ne
      by (simp add: status_derivation_def Let_def split: if_splits) auto
  qed
qed

lemma merged_without_key:
  "k \<noteq> str ''org'' \<Longrightarrow>
     merged_field_dictionary sf (Some (d(k := None))) = (merged_field_dictionary sf (Some d))(k := None)"
  by (rule ext) (simp add: merged_override use_search_fields_def restrict_map_def)

lemma demo_overrides_run:
  "length (queries (fst (course_discovery_search (demo_world None True) None 20 0 (Some demo_overrides)))) = 1"
  "length (queries (fst (course_discovery_search (demo_world None True) None 20 0
             (Some (demo_overrides(str ''start'' := None)))))) = 1"
  by (simp_all add: course_discovery_search_def demo_generate Let_def merged_field_dictionary_def
      status_derivation_def dispatch_discovery_def demo_simps getattr_def queries_append
      use_search_fields_def split_ongoing demo_overrides_def)

lemma demo_overrides_start:
  "field_dictionary
     (hd (queries (fst (course_discovery_search (demo_world None True) None 20 0
             (Some (demo_overrides(str ''start'' := None)))))))
     (str ''start'') = Some (PDateRange None (Some 1000))"
  by (simp add: course_discovery_search_def demo_generate Let_def merged_field_dictionary_def
      status_derivation_def dispatch_discovery_def demo_simps getattr_def queries_append
      use_search_fields_def split_ongoing demo_overrides_def)

lemma dispatch_same_readings:
  assumes "c 1 = utcnow w 1" "c 2 = utcnow w 2"
  shows "dispatch_discovery (w\<lparr>utcnow := c\<rparr>) q s f calls fs ex = dispatch_discovery w q s f calls fs ex"
  using assms by (simp add: dispatch_discovery_def Let_def split: option.splits)

lemma demo_status_ongoing:
  "status_derivation (utcnow (demo_world None True) 0)
     (merged_field_dictionary (fst (generate_field_filters (demo_world None True) None None))
        (Some [str ''estatus'' \<mapsto> PStr (str ''ongoing'')]))
     (snd (snd (generate_field_filters (demo_world None True) None None)))
   = Inr (demo_ongoing_fields, [str ''invitation_only'' \<mapsto> PBool False])"
proof -
  have m: "merged_field_dictionary (fst (generate_field_filters (demo_world None True) None None))
        (Some [str ''estatus'' \<mapsto> PStr (str ''ongoing'')])
      = [str ''org'' \<mapsto> PStr (str ''edX''), str ''estatus'' \<mapsto> PStr (str ''ongoing'')]"
    by (rule ext) (simp add: demo_merged)
  show ?thesis
    unfolding m
    by (subst status_derivation_ongoing) (simp_all add: demo_simps demo_generate demo_ongoing_fields_def)
qed

subsection \<open>Status derivation in course_discovery_search\<close>

text \<open>
  C7. When the merged field dictionary maps \<open>estatus\<close> to the string \<open>ongoing\<close> and an engine
  is configured, the one query sent to the engine has \<open>start = DateRange(None, today)\<close> and
  \<open>end = DateRange(today, None)\<close> in its field dictionary, where \<open>today\<close> is the first
  reading of the clock, and \<open>invitation_only = False\<close> in its exclude dictionary.
\<close>

theorem ongoing_status_constraints:
  assumes est: "merged_field_dictionary (fst (generate_field_filters w None None)) fd (str ''estatus'')
                  = Some (PStr (str ''ongoing''))"
    and engine: "get_search_engine w (info_index_name w) = Some searcher"
  shows "\<exists>args. queries (fst (course_discovery_search w q s f fd)) = [args]
          \<and> snd (course_discovery_search w q s f fd) = Inr (search searcher args)
          \<and> field_dictionary args (str ''start'') = Some (PDateRange None (Some (utcnow w 0)))
          \<and> field_dictionary args (str ''end'') = Some (PDateRange (Some (utcnow w 0)) None)
          \<and> exclude_dictionary args (str ''invitation_only'') = Some (PBool False)"
proof -
  let ?m = "merged_field_dictionary (fst (generate_field_filters w None None)) fd"
  note sd = status_derivation_ongoing [where m = ?m, OF est,
      of "utcnow w 0" "snd (snd (generate_field_filters w None None))"]
  from discovery_single_query [OF sd engine, of q s f]
  show ?thesis by (auto split: if_splits)
qed

theorem ongoing_status_constraints_witness:
  "merged_field_dictionary (fst (generate_field_filters (demo_world None True) None None))
     (Some [str ''estatus'' \<mapsto> PStr (str ''ongoing'')]) (str ''estatus'')
     = Some (PStr (str ''ongoing''))
   \<and> get_search_engine (demo_world None True) (info_index_name (demo_world None True))
       = Some demo_searcher
   \<and> (\<exists>args.
         queries (fst (course_discovery_search (demo_world None True) None 20 0
                         (Some [str ''estatus'' \<mapsto> PStr (str ''ongoing'')]))) = [args]
         \<and> snd (course_discovery_search (demo_world None True) None 20 0
                  (Some [str ''estatus'' \<mapsto> PStr (str ''ongoing'')]))
             = Inr (search demo_searcher args)
         \<and> field_dictionary args (str ''start'') = Some (PDateRange None (Some 1000))
         \<and> field_dictionary args (str ''end'') = Some (PDateRange (Some 1000) None)
         \<and> exclude_dictionary args (str ''invitation_only'') = Some (PBool False))"
  using ongoing_status_constraints
          [of "demo_world None True" "Some [str ''estatus'' \<mapsto> PStr (str ''ongoing'')]"
              demo_searcher None 20 0]
  by (simp add: demo_merged demo_simps)

text \<open>
  C6. When \<open>estatus\<close> is a string other than \<open>ongoing\<close>, \<open>upcoming\<close> and \<open>finished\<close> whose
  whitespace-separated tokens do not include \<open>invitation_only\<close>, and an engine is
  configured, the call returns the engine's answer without an error; the field dictionary
  sent has no \<open>estatus\<close> key, its \<open>start\<close>, \<open>end\<close> and \<open>invitation_only\<close> entries are those of
  the merged dictionary (nothing is added), and the exclude dictionary has
  \<open>invitation_only = False\<close>.
\<close>

theorem unrecognised_status_is_dropped:
  assumes est: "merged_field_dictionary (fst (generate_field_filters w None None)) fd (str ''estatus'')
                  = Some (PStr sv)"
    and other: "sv \<noteq> str ''ongoing''" "sv \<noteq> str ''upcoming''" "sv \<noteq> str ''finished''"
    and tokens: "str ''invitation_only'' \<notin> set (split sv)"
    and engine: "get_search_engine w (info_index_name w) = Some searcher"
  shows "\<exists>args. queries (fst (course_discovery_search w q s f fd)) = [args]
          \<and> snd (course_discovery_search w q s f fd) = Inr (search searcher args)
          \<and> field_dictionary args (str ''estatus'') = None
          \<and> field_dictionary args (str ''start'')
              = merged_field_dictionary (fst (generate_field_filters w None None)) fd (str ''start'')
          \<and> field_dictionary args (str ''end'')
              = merged_field_dictionary (fst (generate_field_filters w None None)) fd (str ''end'')
          \<and> field_dictionary args (str ''invitation_only'')
              = merged_field_dictionary (fst (generate_field_filters w None None)) fd
                  (str ''invitation_only'')
          \<and> exclude_dictionary args (str ''invitation_only'') = Some (PBool False)"
proof -
  let ?m = "merged_field_dictionary (fst (generate_field_filters w None None)) fd"
  note sd = status_derivation_unrecognised [where m = ?m, OF est other tokens,
      of "utcnow w 0" "snd (snd (generate_field_filters w None None))"]
  from discovery_single_query [OF sd engine, of q s f]
  show ?thesis by (auto split: if_splits)
qed

theorem unrecognised_status_is_dropped_witness:
  "merged_field_dictionary (fst (generate_field_filters (demo_world None True) None None))
     (Some [str ''estatus'' \<mapsto> PStr (str ''archived''), str ''start'' \<mapsto> PInt 5]) (str ''estatus'')
     = Some (PStr (str ''archived''))
   \<and> str ''archived'' \<noteq> str ''ongoing'' \<and> str ''archived'' \<noteq> str ''upcoming''
   \<and> str ''archived'' \<noteq> str ''finished''
   \<and> str ''invitation_only'' \<notin> set (split (str ''archived''))
   \<and> get_search_engine (demo_world None True) (info_index_name (demo_world None True))
       = Some demo_searcher
   \<and> (\<exists>args.
         queries (fst (course_discovery_search (demo_world None True) None 20 0
                   (Some [str ''estatus'' \<mapsto> PStr (str ''archived''), str ''start'' \<mapsto> PInt 5])))
           = [args]
         \<and> snd (course_discovery_search (demo_world None True) None 20 0
                   (Some [str ''estatus'' \<mapsto> PStr (str ''archived''), str ''start'' \<mapsto> PInt 5]))
             = Inr (search demo_searcher args)
         \<and> field_dictionary args (str ''estatus'') = None
         \<and> field_dictionary args (str ''start'') = Some (PInt 5)
         \<and> field_dictionary args (str ''end'') = None
         \<and> field_dictionary args (str ''invitation_only'') = None
         \<and> exclude_dictionary args (str ''invitation_only'') = Some (PBool False))"
proof -
  have sp: "split (str ''archived'') = [str ''archived'']"
    by (simp add: split_def str_def isspace_def)
  show ?thesis
    using unrecognised_status_is_dropped
          [of "demo_world None True"
              "Some [str ''estatus'' \<mapsto> PStr (str ''archived''), str ''start'' \<mapsto> PInt 5]"
              "str ''archived''" demo_searcher None 20 0]
    by (simp add: demo_merged demo_simps sp)
qed

text \<open>
  C1. The value \<open>"ongoing invitation_only"\<close> is not equal to \<open>"ongoing"\<close>, so the chain of
  comparisons in lines 102-108 adds no date range; only the token test of line 111
  succeeds. Evaluated in the concrete deployment: the field dictionary sent to the engine
  has \<open>invitation_only = True\<close> and neither \<open>start\<close> nor \<open>end\<close>.
\<close>

theorem ongoing_invitation_only_sets_no_dates:
  "length (queries (fst (course_discovery_search (demo_world None True) None 20 0
             (Some [str ''estatus'' \<mapsto> PStr (str ''ongoing invitation_only'')])))) = 1
   \<and> field_dictionary
        (hd (queries (fst (course_discovery_search (demo_world None True) None 20 0
             (Some [str ''estatus'' \<mapsto> PStr (str ''ongoing invitation_only'')])))))
        (str ''start'') = None
   \<and> field_dictionary
        (hd (queries (fst (course_discovery_search (demo_world None True) None 20 0
             (Some [str ''estatus'' \<mapsto> PStr (str ''ongoing invitation_only'')])))))
        (str ''end'') = None
   \<and> field_dictionary
        (hd (queries (fst (course_discovery_search (demo_world None True) None 20 0
             (Some [str ''estatus'' \<mapsto> PStr (str ''ongoing invitation_only'')])))))
        (str ''invitation_only'') = Some (PBool True)"
  by (simp add: course_discovery_search_def demo_generate Let_def merged_field_dictionary_def
      status_derivation_def dispatch_discovery_def demo_simps getattr_def queries_append
      use_search_fields_def split_ongoing_invitation_only)

text \<open>
  C5. Merging gives every key of the caller's dictionary the caller's value; for a key
  that the seeded dictionary also has, this value reaches the engine. Status derivation
  runs on the merged dictionary: whenever the call without an override of \<open>start\<close>, \<open>end\<close>
  or \<open>invitation_only\<close> sends a value for that key, the call with the override sends the
  same value.
\<close>

theorem overrides_then_status:
  "(\<forall>k. k \<in> dom d \<longrightarrow>
        merged_field_dictionary (fst (generate_field_filters w None None)) (Some d) k = d k)
   \<and> (\<forall>args k.
        args \<in> set (queries (fst (course_discovery_search w q s f (Some d)))) \<longrightarrow>
        k \<in> dom d \<longrightarrow>
        k \<in> dom (fst (generate_field_filters w None None) |` set use_search_fields) \<longrightarrow>
        field_dictionary args k = d k)
   \<and> (\<forall>k sv a0 v.
        merged_field_dictionary (fst (generate_field_filters w None None)) (Some d) (str ''estatus'')
          = Some sv \<longrightarrow>
        k \<in> {str ''start'', str ''end'', str ''invitation_only''} \<longrightarrow>
        a0 \<in> set (queries (fst (course_discovery_search w q s f (Some (d(k := None)))))) \<longrightarrow>
        field_dictionary a0 k = Some v \<longrightarrow>
        (\<exists>a1. queries (fst (course_discovery_search w q s f (Some d))) = [a1]
              \<and> field_dictionary a1 k = Some v))"
proof (intro conjI allI impI)
  fix k assume "k \<in> dom d"
  then show "merged_field_dictionary (fst (generate_field_filters w None None)) (Some d) k = d k"
    by (auto simp: merged_override)
next
  fix args k
  assume a: "args \<in> set (queries (fst (course_discovery_search w q s f (Some d))))"
    and kd: "k \<in> dom d"
    and ks: "k \<in> dom (fst (generate_field_filters w None None) |` set use_search_fields)"
  let ?m = "merged_field_dictionary (fst (generate_field_filters w None None)) (Some d)"
  from ks have org: "k = str ''org''"
    by (auto simp: use_search_fields_def restrict_map_def split: if_splits)
  from discovery_queries [OF a]
  obtain fs ex searcher where sd: "status_derivation (utcnow w 0) ?m
             (snd (snd (generate_field_filters w None None))) = Inr (fs, ex)"
    and engine: "get_search_engine w (info_index_name w) = Some searcher"
    by blast
  from discovery_single_query [OF sd engine, of q s f] a
  have "field_dictionary args =
              (if skip_enrollment_start w then fs
               else fs(str ''enrollment_start'' \<mapsto> PDateRange None (Some (utcnow w 1))))"
    by auto
  then have "field_dictionary args k = fs k"
    using org by simp
  also have "fs k = ?m k"
    using org by (intro status_derivation_other_keys [OF sd]) simp_all
  also have "?m k = d k"
    using kd by (auto simp: merged_override)
  finally show "field_dictionary args k = d k" .
next
  fix k sv a0 v
  let ?sf = "fst (generate_field_filters w None None)"
  let ?ex = "snd (snd (generate_field_filters w None None))"
  assume est: "merged_field_dictionary ?sf (Some d) (str ''estatus'') = Some sv"
    and k: "k \<in> {str ''start'', str ''end'', str ''invitation_only''}"
    and a0: "a0 \<in> set (queries (fst (course_discovery_search w q s f (Some (d(k := None))))))"
    and v: "field_dictionary a0 k = Some v"
  from k have k': "k = str ''start'' \<or> k = str ''end'' \<or> k = str ''invitation_only''"
    by simp
  then have korg: "k \<noteq> str ''org''" and kenr: "k \<noteq> str ''enrollment_start''"
    by auto
  from discovery_queries [OF a0]
  obtain fs0 ex0 searcher where
    sd0: "status_derivation (utcnow w 0) (merged_field_dictionary ?sf (Some (d(k := None)))) ?ex
            = Inr (fs0, ex0)"
    and engine: "get_search_engine w (info_index_name w) = Some searcher"
    by blast
  from discovery_single_query [OF sd0 engine, of q s f] a0
  have "field_dictionary a0 =
              (if skip_enrollment_start w then fs0
               else fs0(str ''enrollment_start'' \<mapsto> PDateRange None (Some (utcnow w 1))))"
    by auto
  with v kenr have fs0: "fs0 k = Some v"
    by (simp split: if_splits)
  from sd0 have sd0': "status_derivation (utcnow w 0)
      ((merged_field_dictionary ?sf (Some d))(k := None)) ?ex = Inr (fs0, ex0)"
    by (simp add: merged_without_key [OF korg])
  from status_derivation_overridden_key [OF k' sd0' fs0]
  obtain fs1 ex1 where
    sd1: "status_derivation (utcnow w 0) (merged_field_dictionary ?sf (Some d)) ?ex = Inr (fs1, ex1)"
    and fs1: "fs1 k = Some v"
    by blast
  from discovery_single_query [OF sd1 engine, of q s f]
  obtain a1 where q1: "queries (fst (course_discovery_search w q s f (Some d))) = [a1]"
    and f1: "field_dictionary a1 =
              (if skip_enrollment_start w then fs1
               else fs1(str ''enrollment_start'' \<mapsto> PDateRange None (Some (utcnow w 1))))"
    by blast
  from f1 fs1 kenr have "field_dictionary a1 k = Some v"
    by simp
  with q1 show "\<exists>a1. queries (fst (course_discovery_search w q s f (Some d))) = [a1]
              \<and> field_dictionary a1 k = Some v"
    by blast
qed

theorem overrides_then_status_witness:
  "str ''org'' \<in> dom demo_overrides
   \<and> merged_field_dictionary (fst (generate_field_filters (demo_world None True) None None))
        (Some demo_overrides) (str ''org'') = Some (PStr (str ''MITx''))
   \<and> hd (queries (fst (course_discovery_search (demo_world None True) None 20 0 (Some demo_overrides))))
        \<in> set (queries (fst (course_discovery_search (demo_world None True) None 20 0
                  (Some demo_overrides))))
   \<and> str ''org'' \<in> dom (fst (generate_field_filters (demo_world None True) None None)
                          |` set use_search_fields)
   \<and> field_dictionary
        (hd (queries (fst (course_discovery_search (demo_world None True) None 20 0
                (Some demo_overrides))))) (str ''org'') = Some (PStr (str ''MITx''))
   \<and> merged_field_dictionary (fst (generate_field_filters (demo_world None True) None None))
        (Some demo_overrides) (str ''estatus'') = Some (PStr (str ''ongoing''))
   \<and> str ''start'' \<in> {str ''start'', str ''end'', str ''invitation_only''}
   \<and> demo_overrides (str ''start'') = Some (PInt 5)
   \<and> hd (queries (fst (course_discovery_search (demo_world None True) None 20 0
                (Some (demo_overrides(str ''start'' := None))))))
        \<in> set (queries (fst (course_discovery_search (demo_world None True) None 20 0
                (Some (demo_overrides(str ''start'' := None))))))
   \<and> field_dictionary
        (hd (queries (fst (course_discovery_search (demo_world None True) None 20 0
                (Some (demo_overrides(str ''start'' := None)))))))
        (str ''start'') = Some (PDateRange None (Some 1000))
   \<and> (\<exists>a1. queries (fst (course_discovery_search (demo_world None True) None 20 0
                  (Some demo_overrides))) = [a1]
           \<and> field_dictionary a1 (str ''start'') = Some (PDateRange None (Some 1000)))"
proof -
  let ?w = "demo_world None True"
  let ?Q = "queries (fst (course_discovery_search ?w None 20 0 (Some demo_overrides)))"
  let ?R = "queries (fst (course_discovery_search ?w None 20 0
                (Some (demo_overrides(str ''start'' := None)))))"
  note inst = overrides_then_status [of demo_overrides ?w None 20 0]
  have org: "str ''org'' \<in> dom demo_overrides"
    by (simp add: demo_overrides_def)
  have seeded: "str ''org'' \<in> dom (fst (generate_field_filters ?w None None) |` set use_search_fields)"
    by (simp add: demo_generate use_search_fields_def)
  have dorg: "demo_overrides (str ''org'') = Some (PStr (str ''MITx''))"
    and dstart: "demo_overrides (str ''start'') = Some (PInt 5)"
    by (simp_all add: demo_overrides_def)
  have est: "merged_field_dictionary (fst (generate_field_filters ?w None None))
        (Some demo_overrides) (str ''estatus'') = Some (PStr (str ''ongoing''))"
    by (simp add: demo_merged demo_overrides_def)
  have k: "str ''start'' \<in> {str ''start'', str ''end'', str ''invitation_only''}"
    by simp
  have q: "hd ?Q \<in> set ?Q"
    using demo_overrides_run(1) by (cases ?Q) simp_all
  have q0: "hd ?R \<in> set ?R"
    using demo_overrides_run(2) by (cases ?R) simp_all
  from inst org dorg have p1: "merged_field_dictionary (fst (generate_field_filters ?w None None))
        (Some demo_overrides) (str ''org'') = Some (PStr (str ''MITx''))"
    by metis
  from inst q org seeded dorg have p2: "field_dictionary (hd ?Q) (str ''org'') = Some (PStr (str ''MITx''))"
    by metis
  from inst est k q0 demo_overrides_start
  have p3: "\<exists>a1. ?Q = [a1] \<and> field_dictionary a1 (str ''start'') = Some (PDateRange None (Some 1000))"
    by blast
  show ?thesis
    using org p1 q seeded p2 est k dstart q0 demo_overrides_start p3 by blast
qed

subsection \<open>The enrollment window\<close>

text \<open>
  C3 (as amended). In every query sent to the engine: when enrollment-start filtering is
  enabled the field dictionary has \<open>enrollment_start = DateRange(None, now)\<close>, \<open>now\<close> being the
  second reading of the clock; when the setting disables it, the function adds no such
  key, and the dictionary has \<open>enrollment_start\<close> exactly when the caller's dictionary has
  it, with the caller's value.
\<close>

theorem enrollment_start_key:
  assumes "args \<in> set (queries (fst (course_discovery_search w q s f fd)))"
  shows "field_dictionary args (str ''enrollment_start'') =
           (if skip_enrollment_start w
            then (case fd of None \<Rightarrow> None | Some d \<Rightarrow> d (str ''enrollment_start''))
            else Some (PDateRange None (Some (utcnow w 1))))"
proof -
  from discovery_queries [OF assms]
  obtain fs ex searcher where sd: "status_derivation (utcnow w 0)
             (merged_field_dictionary (fst (generate_field_filters w None None)) fd)
             (snd (snd (generate_field_filters w None None))) = Inr (fs, ex)"
    and engine: "get_search_engine w (info_index_name w) = Some searcher"
    by blast
  from discovery_single_query [OF sd engine, of q s f] assms
  have fd: "field_dictionary args =
              (if skip_enrollment_start w then fs
               else fs(str ''enrollment_start'' \<mapsto> PDateRange None (Some (utcnow w 1))))"
    by auto
  have "fs (str ''enrollment_start'') =
        merged_field_dictionary (fst (generate_field_filters w None None)) fd (str ''enrollment_start'')"
    by (rule status_derivation_other_keys [OF sd]) simp_all
  also have "\<dots> = (case fd of None \<Rightarrow> None | Some d \<Rightarrow> d (str ''enrollment_start''))"
    by (rule merged_not_seeded) simp
  finally show ?thesis
    using fd by simp
qed

theorem enrollment_start_key_witness:
  "hd (queries (fst (course_discovery_search (demo_world None True) None 20 0
                       (Some [str ''enrollment_start'' \<mapsto> PInt 0]))))
     \<in> set (queries (fst (course_discovery_search (demo_world None True) None 20 0
                       (Some [str ''enrollment_start'' \<mapsto> PInt 0]))))
   \<and> \<not> skip_enrollment_start (demo_world None True)
   \<and> field_dictionary
        (hd (queries (fst (course_discovery_search (demo_world None True) None 20 0
                       (Some [str ''enrollment_start'' \<mapsto> PInt 0])))))
        (str ''enrollment_start'') = Some (PDateRange None (Some 1001))"
proof -
  let ?Q = "queries (fst (course_discovery_search (demo_world None True) None 20 0
                       (Some [str ''enrollment_start'' \<mapsto> PInt 0])))"
  have "length ?Q = 1"
    by (simp add: course_discovery_search_def demo_generate Let_def merged_field_dictionary_def
      status_derivation_def dispatch_discovery_def demo_simps getattr_def queries_append
      use_search_fields_def)
  then have m: "hd ?Q \<in> set ?Q"
    by (cases ?Q) simp_all
  show ?thesis
    using enrollment_start_key [OF m] m by (simp add: demo_simps getattr_def)
qed

text \<open>
  C3 as stated fails: with filtering disabled and a caller dictionary that has an
  \<open>enrollment_start\<close> entry, the field dictionary sent to the engine has that key.
\<close>

theorem skip_flag_keeps_caller_enrollment_start:
  "SEARCH_SKIP_ENROLLMENT_START_DATE_FILTERING (settings (demo_world (Some True) True)) = Some True
   \<and> length (queries (fst (course_discovery_search (demo_world (Some True) True) None 20 0
                (Some [str ''enrollment_start'' \<mapsto> PInt 0])))) = 1
   \<and> field_dictionary
        (hd (queries (fst (course_discovery_search (demo_world (Some True) True) None 20 0
                (Some [str ''enrollment_start'' \<mapsto> PInt 0])))))
        (str ''enrollment_start'') = Some (PInt 0)"
  by (simp add: course_discovery_search_def demo_generate Let_def merged_field_dictionary_def
      status_derivation_def dispatch_discovery_def demo_simps getattr_def queries_append
      use_search_fields_def)

subsection \<open>Readings of the clock\<close>

text \<open>
  C10 (as amended). In a call in which status derivation returns and an engine is
  configured, the clock is read once before status derivation (the \<open>today\<close> of that step),
  once for \<open>enrollment_start\<close> unless the setting disables that filter, and once for
  \<open>enrollment_end\<close>: three readings by default, two when filtering is disabled. The
  readings need not be equal, and a call is determined by the first three readings of the
  clock together.
\<close>

theorem clock_readings_of_discovery:
  assumes sd: "status_derivation (utcnow w 0)
                 (merged_field_dictionary (fst (generate_field_filters w None None)) fd)
                 (snd (snd (generate_field_filters w None None))) = Inr (fs, ex)"
    and engine: "get_search_engine w (info_index_name w) = Some searcher"
  shows "(\<exists>args.
            queries (fst (course_discovery_search w q s f fd)) = [args]
          \<and> clock_readings (fst (course_discovery_search w q s f fd)) =
              (if skip_enrollment_start w then [utcnow w 0, utcnow w 1]
               else [utcnow w 0, utcnow w 1, utcnow w 2])
          \<and> field_dictionary args =
              (if skip_enrollment_start w then fs
               else fs(str ''enrollment_start'' \<mapsto> PDateRange None (Some (utcnow w 1))))
          \<and> filter_dictionary args =
              [str ''enrollment_end'' \<mapsto>
                 PDateRange (Some (utcnow w (if skip_enrollment_start w then 1 else 2))) None])
         \<and> (\<forall>c. c 0 = utcnow w 0 \<and> c 1 = utcnow w 1 \<and> c 2 = utcnow w 2 \<longrightarrow>
                course_discovery_search (w\<lparr>utcnow := c\<rparr>) q s f fd = course_discovery_search w q s f fd)"
proof
  from discovery_configured [OF sd engine, of q s f]
  obtain args where a: "course_discovery_search w q s f fd =
            ([Generate_field_filters None None, Utcnow (utcnow w 0)]
               @ (if skip_enrollment_start w then [] else [Utcnow (utcnow w 1)])
               @ [Get_search_engine (info_index_name w),
                  Utcnow (utcnow w (if skip_enrollment_start w then 1 else 2)),
                  Search args],
             Inr (search searcher args))"
    and b: "field_dictionary args =
              (if skip_enrollment_start w then fs
               else fs(str ''enrollment_start'' \<mapsto> PDateRange None (Some (utcnow w 1))))"
       "filter_dictionary args =
              Map.empty(str ''enrollment_end'' \<mapsto>
                PDateRange (Some (utcnow w (if skip_enrollment_start w then 1 else 2))) None)"
    by blast
  have q: "queries (fst (course_discovery_search w q s f fd)) = [args]"
    unfolding a by simp
  have c: "clock_readings (fst (course_discovery_search w q s f fd)) =
              (if skip_enrollment_start w then [utcnow w 0, utcnow w 1]
               else [utcnow w 0, utcnow w 1, utcnow w 2])"
    unfolding a by simp
  show "\<exists>args.
            queries (fst (course_discovery_search w q s f fd)) = [args]
          \<and> clock_readings (fst (course_discovery_search w q s f fd)) =
              (if skip_enrollment_start w then [utcnow w 0, utcnow w 1]
               else [utcnow w 0, utcnow w 1, utcnow w 2])
          \<and> field_dictionary args =
              (if skip_enrollment_start w then fs
               else fs(str ''enrollment_start'' \<mapsto> PDateRange None (Some (utcnow w 1))))
          \<and> filter_dictionary args =
              [str ''enrollment_end'' \<mapsto>
                 PDateRange (Some (utcnow w (if skip_enrollment_start w then 1 else 2))) None]"
    using q c b by blast
next
  show "\<forall>c. c 0 = utcnow w 0 \<and> c 1 = utcnow w 1 \<and> c 2 = utcnow w 2 \<longrightarrow>
                course_discovery_search (w\<lparr>utcnow := c\<rparr>) q s f fd = course_discovery_search w q s f fd"
    by (simp add: course_discovery_search_def Let_def dispatch_same_readings
        split: prod.splits sum.splits)
qed

theorem clock_readings_of_discovery_witness:
  "status_derivation (utcnow (demo_world None True) 0)
     (merged_field_dictionary (fst (generate_field_filters (demo_world None True) None None))
        (Some [str ''estatus'' \<mapsto> PStr (str ''ongoing'')]))
     (snd (snd (generate_field_filters (demo_world None True) None None)))
     = Inr (demo_ongoing_fields, [str ''invitation_only'' \<mapsto> PBool False])
   \<and> get_search_engine (demo_world None True) (info_index_name (demo_world None True))
       = Some demo_searcher
   \<and> (\<exists>args.
         queries (fst (course_discovery_search (demo_world None True) None 20 0
                         (Some [str ''estatus'' \<mapsto> PStr (str ''ongoing'')]))) = [args]
         \<and> clock_readings (fst (course_discovery_search (demo_world None True) None 20 0
                         (Some [str ''estatus'' \<mapsto> PStr (str ''ongoing'')]))) = [1000, 1001, 1002]
         \<and> field_dictionary args (str ''start'') = Some (PDateRange None (Some 1000))
         \<and> field_dictionary args (str ''end'') = Some (PDateRange (Some 1000) None)
         \<and> field_dictionary args (str ''enrollment_start'') = Some (PDateRange None (Some 1001))
         \<and> filter_dictionary args (str ''enrollment_end'') = Some (PDateRange (Some 1002) None))
   \<and> course_discovery_search
        ((demo_world None True)\<lparr>utcnow := (\<lambda>n. if n \<le> 2 then 1000 + int n else 0)\<rparr>) None 20 0
        (Some [str ''estatus'' \<mapsto> PStr (str ''ongoing'')])
       = course_discovery_search (demo_world None True) None 20 0
           (Some [str ''estatus'' \<mapsto> PStr (str ''ongoing'')])"
proof -
  let ?w = "demo_world None True"
  have eng: "get_search_engine ?w (info_index_name ?w) = Some demo_searcher"
    by (simp add: demo_simps)
  note inst = clock_readings_of_discovery [OF demo_status_ongoing eng, of None 20 0]
  from inst have a: "\<exists>args.
         queries (fst (course_discovery_search ?w None 20 0
                         (Some [str ''estatus'' \<mapsto> PStr (str ''ongoing'')]))) = [args]
         \<and> clock_readings (fst (course_discovery_search ?w None 20 0
                         (Some [str ''estatus'' \<mapsto> PStr (str ''ongoing'')]))) = [1000, 1001, 1002]
         \<and> field_dictionary args (str ''start'') = Some (PDateRange None (Some 1000))
         \<and> field_dictionary args (str ''end'') = Some (PDateRange (Some 1000) None)
         \<and> field_dictionary args (str ''enrollment_start'') = Some (PDateRange None (Some 1001))
         \<and> filter_dictionary args (str ''enrollment_end'') = Some (PDateRange (Some 1002) None)"
    by (auto simp: demo_simps getattr_def demo_ongoing_fields_def)
  from inst have b: "course_discovery_search
        (?w\<lparr>utcnow := (\<lambda>n. if n \<le> 2 then 1000 + int n else 0)\<rparr>) None 20 0
        (Some [str ''estatus'' \<mapsto> PStr (str ''ongoing'')])
       = course_discovery_search ?w None 20 0 (Some [str ''estatus'' \<mapsto> PStr (str ''ongoing'')])"
    by (simp add: demo_simps)
  show ?thesis
    using demo_status_ongoing eng a b by blast
qed

text \<open>
  C10 as stated fails: with enrollment-start filtering disabled the call reaches the
  engine after two readings of the clock.
\<close>

theorem skip_flag_two_clock_readings:
  "SEARCH_SKIP_ENROLLMENT_START_DATE_FILTERING (settings (demo_world (Some True) True)) = Some True
   \<and> length (queries (fst (course_discovery_search (demo_world (Some True) True) None 20 0 None))) = 1
   \<and> clock_readings (fst (course_discovery_search (demo_world (Some True) True) None 20 0 None))
       = [1000, 1001]"
  by (simp add: course_discovery_search_def demo_generate Let_def merged_field_dictionary_def
      status_derivation_def dispatch_discovery_def demo_simps getattr_def queries_append
      use_search_fields_def)

text \<open>Two clocks with the same first reading can give different calls.\<close>

lemma first_reading_does_not_determine_call:
  "utcnow ((demo_world None True)\<lparr>utcnow := (\<lambda>n. 1000)\<rparr>) 0 = utcnow (demo_world None True) 0
   \<and> course_discovery_search ((demo_world None True)\<lparr>utcnow := (\<lambda>n. 1000)\<rparr>) None 20 0 None
       \<noteq> course_discovery_search (demo_world None True) None 20 0 None"
  by (simp add: course_discovery_search_def demo_generate Let_def merged_field_dictionary_def
      status_derivation_def dispatch_discovery_def demo_simps getattr_def
      use_search_fields_def demo_world_def demo_settings_def)

end
